theory Spec2Isabelle
  imports Complex_Main
begin

section \<open>Values of the host language\<close>

text \<open>
  The dashboard is a TypeScript/React component that exists in two variants:
  \<^verbatim>\<open>src/components/Dashboard.tsx\<close> (below: the Dashboard variant) and the longer file
  \<^verbatim>\<open>unnamed/part_000\<close> (below: the part000 variant).  Both hold the same three pieces of
  logic: normalising the fetched JSON, filtering by a trailing time window, and
  summarising the latest reading.

  A JavaScript number is an IEEE double.  Every finite double is a rational number, so a
  finite number is modelled by its exact value; the three non-finite values are
  constructors of their own.  Negative zero is identified with zero: no operation used by
  the component (\<^verbatim>\<open>||\<close>, \<^verbatim>\<open>toFixed\<close>) tells them apart.
\<close>

datatype jsnumber = Finite rat | PosInfinity | NegInfinity | NaN

text \<open>
  The endpoint's response is typed \<^verbatim>\<open>any\<close>: whatever \<^verbatim>\<open>response.json()\<close> produced.
  \<open>JUndefined\<close> is not a JSON value; it is what reading an absent property yields.
  Strings are byte lists (the UTF-8 encoding of the text); the component only compares and
  concatenates them.
\<close>

datatype jsval =
    JUndefined
  | JNull
  | JBoolean bool
  | JNumber jsnumber
  | JString string
  | JArray "jsval list"
  | JObject "(string \<times> jsval) list"

datatype js_error = TypeError | RangeError

text \<open>
  A \<^verbatim>\<open>Date\<close> object holds a time value: an integral number of milliseconds since the
  epoch, or NaN (an invalid date).  \<^verbatim>\<open>getTime()\<close> returns it; \<open>None\<close> stands for NaN.
\<close>

datatype date = Date int | InvalidDate

fun getTime :: "date \<Rightarrow> int option" where
  "getTime (Date t) = Some t"
| "getTime InvalidDate = None"

section \<open>The data model\<close>

text \<open>
  \<^verbatim>\<open>type TemperatureHumidityData\<close>.  The part000 variant adds the optional fields
  \<^verbatim>\<open>doorStatus\<close> and \<^verbatim>\<open>imageData\<close>; in the Dashboard variant they are absent, which reads
  as \<open>JUndefined\<close>.  The declared type of \<^verbatim>\<open>temperature\<close> and \<^verbatim>\<open>humidity\<close> is
  \<^verbatim>\<open>number\<close>, but the records are built from \<^verbatim>\<open>any\<close> without a check, so the fields
  carry whatever value the normalisation put there.
\<close>

record reading =
  timestamp :: string
  temperature :: jsval
  humidity :: jsval
  originalDate :: date
  doorStatus :: jsval
  imageData :: jsval

text \<open>\<^verbatim>\<open>type TimeRange = '1hour' | '6hours' | '24hours' | '7days' | 'all'\<close>\<close>

datatype TimeRange = T_1hour | T_6hours | T_24hours | T_7days | T_all

section \<open>Time-window filter\<close>

text \<open>
  \<^verbatim>\<open>const diff = now.getTime() - item.originalDate.getTime()\<close>.  \<^verbatim>\<open>now\<close> is
  \<^verbatim>\<open>new Date()\<close>, always a valid date, so its time value is an integer; the difference is
  NaN exactly when the item's date is invalid.

  Time values lie within \<open>\<plusminus>8.64e15\<close>, so a difference can exceed \<open>2^53\<close> and be rounded
  by the double subtraction.  Rounding is monotone and fixes every integer below \<open>2^53\<close>,
  and so it does not change the outcome of comparing the difference with one of the four
  thresholds, all of them integers far below \<open>2^53\<close>: the integer model decides
  \<^verbatim>\<open>diff <= c\<close> as the doubles do.
\<close>

definition diff :: "int \<Rightarrow> reading \<Rightarrow> int option" where
  "diff now item =
     (case getTime (originalDate item) of
        None \<Rightarrow> None
      | Some t \<Rightarrow> Some (now - t))"

text \<open>\<^verbatim>\<open>d <= c\<close> on numbers: false when \<open>d\<close> is NaN.\<close>

fun js_le :: "int option \<Rightarrow> int \<Rightarrow> bool" where
  "js_le None c = False"
| "js_le (Some d) c = (d \<le> c)"

text \<open>The callback passed to \<^verbatim>\<open>data.filter\<close>: the \<^verbatim>\<open>switch\<close> on \<^verbatim>\<open>timeRange\<close>.\<close>

fun keep :: "TimeRange \<Rightarrow> int \<Rightarrow> reading \<Rightarrow> bool" where
  "keep T_1hour now item = js_le (diff now item) (60 * 60 * 1000)"
| "keep T_6hours now item = js_le (diff now item) (6 * 60 * 60 * 1000)"
| "keep T_24hours now item = js_le (diff now item) (24 * 60 * 60 * 1000)"
| "keep T_7days now item = js_le (diff now item) (7 * 24 * 60 * 60 * 1000)"
| "keep T_all now item = True"

text \<open>
  \<^verbatim>\<open>filterData\<close>: the value handed to \<^verbatim>\<open>setFilteredData\<close>, as a function of the reference
  time read by \<^verbatim>\<open>new Date()\<close>, the selected range and the source sequence.  The two
  variants have the same text.
\<close>

definition filterData :: "int \<Rightarrow> TimeRange \<Rightarrow> reading list \<Rightarrow> reading list" where
  "filterData now timeRange xs = filter (keep timeRange now) xs"

subsection \<open>The filter as the specification words it\<close>

text \<open>
  The specification's reading of the filter: a window tag denotes a duration in
  milliseconds (none for "all"), and a reading is inside the window when its origin
  instant exists and lies no more than that duration before the reference time.
\<close>

fun spec_window_ms :: "TimeRange \<Rightarrow> int option" where
  "spec_window_ms T_1hour = Some 3600000"
| "spec_window_ms T_6hours = Some 21600000"
| "spec_window_ms T_24hours = Some 86400000"
| "spec_window_ms T_7days = Some 604800000"
| "spec_window_ms T_all = None"

fun spec_within :: "int \<Rightarrow> int \<Rightarrow> reading \<Rightarrow> bool" where
  "spec_within now w item =
     (case originalDate item of
        InvalidDate \<Rightarrow> False
      | Date t \<Rightarrow> now - t \<le> w)"

text \<open>
  The specification orders the window tags by duration, "all" being the widest:
  \<open>spec_wider a b\<close> says that \<open>a\<close> is at least as wide as \<open>b\<close>.
\<close>

fun spec_wider :: "TimeRange \<Rightarrow> TimeRange \<Rightarrow> bool" where
  "spec_wider a b =
     (case spec_window_ms a of
        None \<Rightarrow> True
      | Some wa \<Rightarrow> (case spec_window_ms b of None \<Rightarrow> False | Some wb \<Rightarrow> wb \<le> wa))"

section \<open>The host environment\<close>

text \<open>
  Three services of the JavaScript runtime are used by the component and depend on the
  host (its date parser, its time zone) or on the binary layout of doubles.  They are
  parameters of the model:
  \<^item> \<open>dateValue v\<close> is the date that \<^verbatim>\<open>new Date(v)\<close> constructs from an arbitrary value
    \<open>v\<close>, when the constructor does not throw (whether it throws does not depend on the
    host and is modelled below);
  \<^item> \<open>getMonth\<close>, \<open>getDate\<close>, \<open>getHours\<close>, \<open>getMinutes\<close> are the local-time getters of a
    valid date, given its time value (on an invalid date each returns NaN);
  \<^item> \<open>numberToString\<close> is \<^verbatim>\<open>Number::toString\<close> on a finite value of magnitude at least
    \<open>10^21\<close>, the only place where \<^verbatim>\<open>toFixed\<close> falls back to the shortest round-trip
    notation.
\<close>

record host =
  dateValue :: "jsval \<Rightarrow> date"
  getMonth :: "int \<Rightarrow> nat"
  getDate :: "int \<Rightarrow> nat"
  getHours :: "int \<Rightarrow> nat"
  getMinutes :: "int \<Rightarrow> nat"
  numberToString :: "rat \<Rightarrow> string"

subsection \<open>Decimal digits\<close>

definition digit :: "nat \<Rightarrow> char" where
  "digit n = ''0123456789'' ! n"

text \<open>The decimal representation of a natural number, without leading zeros.\<close>

fun decimal :: "nat \<Rightarrow> string" where
  "decimal n = (if n < 10 then [digit n] else decimal (n div 10) @ [digit (n mod 10)])"

declare decimal.simps [simp del]

text \<open>\<^verbatim>\<open>s.padStart(n, '0')\<close>\<close>

definition padStart :: "nat \<Rightarrow> string \<Rightarrow> string" where
  "padStart n s = replicate (n - length s) CHR ''0'' @ s"

subsection \<open>Number.prototype.toFixed\<close>

text \<open>
  \<^verbatim>\<open>x.toFixed(f)\<close> for a number \<open>x\<close> and \<open>0 \<le> f \<le> 100\<close>, step by step as ECMAScript
  defines it on the exact value of \<open>x\<close>: a non-finite \<open>x\<close> prints as its name; otherwise
  the sign is split off, and below \<open>10^21\<close> the integer \<open>n\<close> nearest to \<open>x * 10^f\<close> (the
  larger one on a tie) is printed with a point before its last \<open>f\<close> digits, zeros being
  prepended when it has no more than \<open>f\<close> digits.
\<close>

definition toFixed :: "host \<Rightarrow> jsnumber \<Rightarrow> nat \<Rightarrow> string" where
  "toFixed h x f =
     (case x of
        NaN \<Rightarrow> ''NaN''
      | PosInfinity \<Rightarrow> ''Infinity''
      | NegInfinity \<Rightarrow> ''-Infinity''
      | Finite q \<Rightarrow>
          (let s = (if q < 0 then ''-'' else []);
               a = \<bar>q\<bar>
           in if 10 ^ 21 \<le> a then s @ numberToString h a
              else
                (let n = nat \<lfloor>a * 10 ^ f + 1 / 2\<rfloor>;
                     m = decimal n
                 in if f \<noteq> 0
                    then (let m' = (if length m \<le> f
                                    then replicate (f + 1 - length m) CHR ''0'' @ m else m);
                              k = length m'
                          in s @ take (k - f) m' @ ''.'' @ drop (k - f) m')
                    else s @ m)))"

text \<open>
  The method call \<^verbatim>\<open>v.toFixed(f)\<close> on an arbitrary value: only a number has the method.
  Reading the property of \<^verbatim>\<open>undefined\<close> or \<^verbatim>\<open>null\<close> throws, and on any other value
  that JSON can produce \<^verbatim>\<open>toFixed\<close> is not a function.
\<close>

definition call_toFixed :: "host \<Rightarrow> jsval \<Rightarrow> nat \<Rightarrow> js_error + string" where
  "call_toFixed h v f =
     (case v of
        JNumber x \<Rightarrow> (if 100 < f then Inl RangeError else Inr (toFixed h x f))
      | _ \<Rightarrow> Inl TypeError)"

section \<open>Latest-reading summary\<close>

record summary =
  temp :: string
  humid :: string

text \<open>
  \<^verbatim>\<open>getLatestReadings\<close>, applied to the current \<^verbatim>\<open>filteredData\<close>; the same text in both
  variants.
\<close>

definition getLatestReadings :: "host \<Rightarrow> reading list \<Rightarrow> js_error + summary" where
  "getLatestReadings h filtered =
     (if length filtered = 0 then Inr \<lparr>temp = ''--'', humid = ''--''\<rparr>
      else
        (let latest = filtered ! (length filtered - 1)
         in case call_toFixed h (temperature latest) 1 of
              Inl e \<Rightarrow> Inl e
            | Inr t \<Rightarrow>
                (case call_toFixed h (humidity latest) 1 of
                   Inl e \<Rightarrow> Inl e
                 | Inr u \<Rightarrow> Inr \<lparr>temp = t, humid = u\<rparr>)))"

section \<open>Fetch and normalise\<close>

text \<open>\<^verbatim>\<open>ToBoolean\<close>, which decides \<^verbatim>\<open>a || b\<close>.\<close>

fun ToBoolean :: "jsval \<Rightarrow> bool" where
  "ToBoolean JUndefined = False"
| "ToBoolean JNull = False"
| "ToBoolean (JBoolean b) = b"
| "ToBoolean (JNumber n) = (n \<noteq> Finite 0 \<and> n \<noteq> NaN)"
| "ToBoolean (JString s) = (s \<noteq> [])"
| "ToBoolean (JArray xs) = True"
| "ToBoolean (JObject kvs) = True"

definition js_or :: "jsval \<Rightarrow> jsval \<Rightarrow> jsval" where
  "js_or a b = (if ToBoolean a then a else b)"

text \<open>
  Reading a property.  On \<^verbatim>\<open>undefined\<close> and \<^verbatim>\<open>null\<close> the access throws a TypeError.
  An object yields the value stored under the key, or \<^verbatim>\<open>undefined\<close> (a parsed object
  holds each key once).  The component reads the keys \<^verbatim>\<open>time\<close>, \<^verbatim>\<open>temperature\<close>,
  \<^verbatim>\<open>humidity\<close>, \<^verbatim>\<open>doorStatus\<close> and \<^verbatim>\<open>imageData\<close> only, none of which a prototype
  supplies, so every other value yields \<^verbatim>\<open>undefined\<close>.
\<close>

fun nullish :: "jsval \<Rightarrow> bool" where
  "nullish JUndefined = True"
| "nullish JNull = True"
| "nullish _ = False"

fun getProp :: "jsval \<Rightarrow> string \<Rightarrow> jsval" where
  "getProp (JObject kvs) k = (case map_of kvs k of None \<Rightarrow> JUndefined | Some v \<Rightarrow> v)"
| "getProp _ k = JUndefined"

text \<open>
  \<^verbatim>\<open>new Date(v)\<close> first converts \<open>v\<close> to a primitive, and that conversion can throw.
  A parsed object or array has no callable property of its own, so the conversion goes
  through \<^verbatim>\<open>valueOf\<close> and \<^verbatim>\<open>toString\<close> as follows: an own property of either name is
  not callable and is skipped; the inherited \<^verbatim>\<open>valueOf\<close> returns the object itself, which
  is no primitive; the inherited \<^verbatim>\<open>toString\<close> of an object returns a string, and that of
  an array joins its elements, converting each of them to a string in the same way
  (\<^verbatim>\<open>null\<close> becomes the empty string).  Hence the conversion throws a TypeError exactly
  when the value is an object with a key \<^verbatim>\<open>toString\<close> of its own, or an array holding,
  at any depth, such an object.  A primitive is never rejected.
\<close>

fun toPrimitive_throws :: "jsval \<Rightarrow> bool"
  and toPrimitive_throws_any :: "jsval list \<Rightarrow> bool" where
  "toPrimitive_throws (JObject kvs) = (map_of kvs ''toString'' \<noteq> None)"
| "toPrimitive_throws (JArray xs) = toPrimitive_throws_any xs"
| "toPrimitive_throws JUndefined = False"
| "toPrimitive_throws JNull = False"
| "toPrimitive_throws (JBoolean b) = False"
| "toPrimitive_throws (JNumber n) = False"
| "toPrimitive_throws (JString s) = False"
| "toPrimitive_throws_any [] = False"
| "toPrimitive_throws_any (x # xs) = (toPrimitive_throws x \<or> toPrimitive_throws_any xs)"

text \<open>\<^verbatim>\<open>new Date(v)\<close>: the TypeError of the conversion, or the date the host constructs.\<close>

definition newDate :: "host \<Rightarrow> jsval \<Rightarrow> js_error + date" where
  "newDate h v = (if toPrimitive_throws v then Inl TypeError else Inr (dateValue h v))"

text \<open>
  The template literal
  \<^verbatim>\<open>`${date.getMonth() + 1}/${date.getDate()} ${date.getHours()}:${String(date.getMinutes()).padStart(2, '0')}`\<close>.
  On an invalid date every getter is NaN and prints as \<^verbatim>\<open>NaN\<close>.
\<close>

definition formattedTime :: "host \<Rightarrow> date \<Rightarrow> string" where
  "formattedTime h d =
     (case d of
        InvalidDate \<Rightarrow> ''NaN'' @ ''/'' @ ''NaN'' @ '' '' @ ''NaN'' @ '':'' @ padStart 2 ''NaN''
      | Date t \<Rightarrow>
          decimal (getMonth h t + 1) @ ''/'' @ decimal (getDate h t) @ '' ''
            @ decimal (getHours h t) @ '':'' @ padStart 2 (decimal (getMinutes h t)))"

text \<open>
  The callback of \<^verbatim>\<open>json.map\<close> in \<^verbatim>\<open>src/components/Dashboard.tsx\<close>.  The first statement
  reads \<^verbatim>\<open>item.time\<close>, which throws when the item is \<^verbatim>\<open>null\<close>, and hands it to
  \<^verbatim>\<open>new Date\<close>, which throws when it cannot be converted to a primitive.  The object
  literal has no \<^verbatim>\<open>doorStatus\<close> and no \<^verbatim>\<open>imageData\<close>.
\<close>

definition formatItem_Dashboard :: "host \<Rightarrow> jsval \<Rightarrow> js_error + reading" where
  "formatItem_Dashboard h item =
     (if nullish item then Inl TypeError
      else
        (case newDate h (getProp item ''time'') of
           Inl e \<Rightarrow> Inl e
         | Inr date \<Rightarrow>
             Inr \<lparr>timestamp = formattedTime h date,
                  temperature = js_or (getProp item ''temperature'') (JNumber (Finite 0)),
                  humidity = js_or (getProp item ''humidity'') (JNumber (Finite 0)),
                  originalDate = date,
                  doorStatus = JUndefined,
                  imageData = JUndefined\<rparr>))"

text \<open>The callback of \<^verbatim>\<open>json.map\<close> in \<^verbatim>\<open>unnamed/part_000\<close>.\<close>

definition formatItem_part000 :: "host \<Rightarrow> jsval \<Rightarrow> js_error + reading" where
  "formatItem_part000 h item =
     (if nullish item then Inl TypeError
      else
        (case newDate h (getProp item ''time'') of
           Inl e \<Rightarrow> Inl e
         | Inr date \<Rightarrow>
             Inr \<lparr>timestamp = formattedTime h date,
                  temperature = js_or (getProp item ''temperature'') (JNumber (Finite 0)),
                  humidity = js_or (getProp item ''humidity'') (JNumber (Finite 0)),
                  originalDate = date,
                  doorStatus = js_or (getProp item ''doorStatus'') (JString ''closed''),
                  imageData = js_or (getProp item ''imageData'')
                                (JObject [(''reading'', JNumber (Finite 0))])\<rparr>))"

text \<open>
  \<^verbatim>\<open>Array.prototype.map\<close> with a callback that may throw: the first exception ends the
  call.
\<close>

fun map_throwing :: "('a \<Rightarrow> js_error + 'b) \<Rightarrow> 'a list \<Rightarrow> js_error + 'b list" where
  "map_throwing f [] = Inr []"
| "map_throwing f (x # xs) =
     (case f x of
        Inl e \<Rightarrow> Inl e
      | Inr y \<Rightarrow> (case map_throwing f xs of Inl e \<Rightarrow> Inl e | Inr ys \<Rightarrow> Inr (y # ys)))"

text \<open>
  \<^verbatim>\<open>const formattedData = json.map(...)\<close>: only an array has a callable \<^verbatim>\<open>map\<close>; on
  any other parsed value the call throws a TypeError.
\<close>

definition formattedData ::
  "(jsval \<Rightarrow> js_error + reading) \<Rightarrow> jsval \<Rightarrow> js_error + reading list" where
  "formattedData callback json =
     (case json of
        JArray items \<Rightarrow> map_throwing callback items
      | _ \<Rightarrow> Inl TypeError)"

subsection \<open>The component's state and its setters\<close>

text \<open>
  The \<^verbatim>\<open>useState\<close> cells that the fetch and the filter touch.  \<open>doorStatusState\<close> is the
  cell \<^verbatim>\<open>doorStatus\<close> of the part000 variant (the name is taken by the field of a
  reading); the Dashboard variant has no such cell and never writes it.  The remaining
  cells (\<^verbatim>\<open>darkMode\<close>, \<^verbatim>\<open>displayType\<close>, \<^verbatim>\<open>currentView\<close>, \<^verbatim>\<open>tableDataType\<close>) are
  view settings that neither function reads or writes.
\<close>

record dashboard_state =
  data :: "reading list"
  filteredData :: "reading list"
  loading :: bool
  error :: "string option"
  timeRange :: TimeRange
  doorStatusState :: jsval

definition initial_state :: dashboard_state where
  "initial_state =
     \<lparr>data = [], filteredData = [], loading = True, error = None,
      timeRange = T_24hours, doorStatusState = JString ''closed''\<rparr>"

datatype setter_call =
    SetData "reading list"
  | SetFilteredData "reading list"
  | SetLoading bool
  | SetError "string option"
  | SetDoorStatus jsval

fun apply_call :: "setter_call \<Rightarrow> dashboard_state \<Rightarrow> dashboard_state" where
  "apply_call (SetData xs) s = s\<lparr>data := xs\<rparr>"
| "apply_call (SetFilteredData xs) s = s\<lparr>filteredData := xs\<rparr>"
| "apply_call (SetLoading b) s = s\<lparr>loading := b\<rparr>"
| "apply_call (SetError e) s = s\<lparr>error := e\<rparr>"
| "apply_call (SetDoorStatus v) s = s\<lparr>doorStatusState := v\<rparr>"

definition apply_calls :: "setter_call list \<Rightarrow> dashboard_state \<Rightarrow> dashboard_state" where
  "apply_calls cs s = fold apply_call cs s"

text \<open>
  The message of the \<^verbatim>\<open>catch\<close> block, as the bytes of its UTF-8 encoding in the source
  file (thirteen Japanese characters, three bytes each).
\<close>

definition fetch_error_message :: string where
  "fetch_error_message =
     [CHR 0xE3, CHR 0x83, CHR 0x87, CHR 0xE3, CHR 0x83, CHR 0xBC, CHR 0xE3, CHR 0x82, CHR 0xBF,
      CHR 0xE3, CHR 0x81, CHR 0xAE, CHR 0xE5, CHR 0x8F, CHR 0x96, CHR 0xE5, CHR 0xBE, CHR 0x97,
      CHR 0xE3, CHR 0x81, CHR 0xAB, CHR 0xE5, CHR 0xA4, CHR 0xB1, CHR 0xE6, CHR 0x95, CHR 0x97,
      CHR 0xE3, CHR 0x81, CHR 0x97, CHR 0xE3, CHR 0x81, CHR 0xBE, CHR 0xE3, CHR 0x81, CHR 0x97,
      CHR 0xE3, CHR 0x81, CHR 0x9F]"

text \<open>
  What the two \<^verbatim>\<open>await\<close>s of \<^verbatim>\<open>fetchData\<close> deliver: the request or the parsing of the
  body was rejected, or a parsed value arrived.
\<close>

datatype fetch_result = Rejected | Json jsval

text \<open>The \<^verbatim>\<open>catch\<close> block, the same in both variants.\<close>

definition on_catch :: "setter_call list" where
  "on_catch = [SetError (Some fetch_error_message), SetLoading False]"

text \<open>
  \<^verbatim>\<open>fetchData\<close> from the point where the awaited response is settled: the setter calls
  it issues, in order.  Every statement of the \<^verbatim>\<open>try\<close> block that can throw comes before
  the first setter call, so a failure issues the calls of the \<^verbatim>\<open>catch\<close> block alone.
\<close>

definition fetchData_Dashboard :: "host \<Rightarrow> fetch_result \<Rightarrow> setter_call list" where
  "fetchData_Dashboard h r =
     (case r of
        Rejected \<Rightarrow> on_catch
      | Json json \<Rightarrow>
          (case formattedData (formatItem_Dashboard h) json of
             Inl e \<Rightarrow> on_catch
           | Inr fd \<Rightarrow> [SetData fd, SetLoading False]))"

definition fetchData_part000 :: "host \<Rightarrow> fetch_result \<Rightarrow> setter_call list" where
  "fetchData_part000 h r =
     (case r of
        Rejected \<Rightarrow> on_catch
      | Json json \<Rightarrow>
          (case formattedData (formatItem_part000 h) json of
             Inl e \<Rightarrow> on_catch
           | Inr fd \<Rightarrow>
               [SetData fd]
               @ (if length fd > 0 then [SetDoorStatus (doorStatus (fd ! (length fd - 1)))] else [])
               @ [SetLoading False]))"

text \<open>
  A fetch has failed when the request or the parsing was rejected, or when normalising
  the parsed value throws: it is no array, or one of its items is \<^verbatim>\<open>null\<close> or has a
  \<^verbatim>\<open>time\<close> that \<^verbatim>\<open>new Date\<close> rejects.
\<close>

definition fetch_failed :: "(jsval \<Rightarrow> js_error + reading) \<Rightarrow> fetch_result \<Rightarrow> bool" where
  "fetch_failed callback r =
     (case r of
        Rejected \<Rightarrow> True
      | Json json \<Rightarrow> (case formattedData callback json of Inl e \<Rightarrow> True | Inr fd \<Rightarrow> False))"

section \<open>Mounting, polling and teardown\<close>

text \<open>
  The body of the mount effect (\<^verbatim>\<open>useEffect(..., [])\<close>) is a sequence of requests to the
  runtime, and so is the cleanup function it returns.  The callback of the interval timer
  is always \<^verbatim>\<open>fetchData\<close>, and the component holds at most one timer, whose handle
  \<^verbatim>\<open>clearInterval\<close> receives.
\<close>

datatype command = CallFetchData | SetInterval nat | ClearInterval

record mount_effect =
  body :: "command list"
  cleanup :: "command list"

text \<open>
  \<^verbatim>\<open>src/components/Dashboard.tsx\<close>: the effect calls \<^verbatim>\<open>fetchData()\<close> and returns
  nothing.
\<close>

definition mountEffect_Dashboard :: mount_effect where
  "mountEffect_Dashboard = \<lparr>body = [CallFetchData], cleanup = []\<rparr>"

text \<open>
  \<^verbatim>\<open>unnamed/part_000\<close>: \<^verbatim>\<open>fetchData(); const interval = setInterval(fetchData, 5000);
  return () => clearInterval(interval);\<close>
\<close>

definition mountEffect_part000 :: mount_effect where
  "mountEffect_part000 = \<lparr>body = [CallFetchData, SetInterval 5000], cleanup = [ClearInterval]\<rparr>"

text \<open>A variant of the component: its mount effect and its \<^verbatim>\<open>fetchData\<close>.\<close>

record variant =
  effect :: mount_effect
  continuation :: "fetch_result \<Rightarrow> setter_call list"

definition variant_Dashboard :: "host \<Rightarrow> variant" where
  "variant_Dashboard h = \<lparr>effect = mountEffect_Dashboard, continuation = fetchData_Dashboard h\<rparr>"

definition variant_part000 :: "host \<Rightarrow> variant" where
  "variant_part000 h = \<lparr>effect = mountEffect_part000, continuation = fetchData_part000 h\<rparr>"

text \<open>
  The environment of the component, as far as the effect can observe it: whether the
  component is mounted; the interval timer, if one is registered, with its period and the
  milliseconds elapsed since it last fired; how often \<^verbatim>\<open>fetchData\<close> has been invoked; how
  many invocations are suspended at an \<^verbatim>\<open>await\<close>; and the setter calls issued so far, each
  with the flag whether the component was mounted when it was issued.
\<close>

record component =
  mounted :: bool
  interval :: "(nat \<times> nat) option"
  invocations :: nat
  inflight :: nat
  issued :: "(bool \<times> setter_call) list"

definition initial_component :: component where
  "initial_component =
     \<lparr>mounted = False, interval = None, invocations = 0, inflight = 0, issued = []\<rparr>"

fun exec :: "command \<Rightarrow> component \<Rightarrow> component" where
  "exec CallFetchData c = c\<lparr>invocations := invocations c + 1, inflight := inflight c + 1\<rparr>"
| "exec (SetInterval p) c = c\<lparr>interval := Some (p, 0)\<rparr>"
| "exec ClearInterval c = c\<lparr>interval := None\<rparr>"

text \<open>
  What can happen to a component: it is mounted, it is torn down, time passes, or the
  response awaited by the oldest suspended \<^verbatim>\<open>fetchData\<close> is settled.  A timer of period
  \<open>p\<close> fires each time another \<open>p\<close> milliseconds have passed, and each firing invokes
  \<^verbatim>\<open>fetchData\<close> (the only period the component registers is 5000; a period of 0 is
  not modelled and never fires here).  A settled response resumes \<^verbatim>\<open>fetchData\<close>, which
  issues its setter calls; nothing in the source consults the mounted flag at that point.
\<close>

datatype event = Mount | Unmount | Elapse nat | Settle fetch_result

fun step :: "variant \<Rightarrow> event \<Rightarrow> component \<Rightarrow> component" where
  "step v Mount c = fold exec (body (effect v)) (c\<lparr>mounted := True\<rparr>)"
| "step v Unmount c = fold exec (cleanup (effect v)) (c\<lparr>mounted := False\<rparr>)"
| "step v (Elapse ms) c =
     (case interval c of
        None \<Rightarrow> c
      | Some (p, e) \<Rightarrow>
          (exec CallFetchData ^^ ((e + ms) div p)) (c\<lparr>interval := Some (p, (e + ms) mod p)\<rparr>))"
| "step v (Settle r) c =
     (if inflight c = 0 then c
      else c\<lparr>inflight := inflight c - 1,
             issued := issued c @ map (Pair (mounted c)) (continuation v r)\<rparr>)"

definition run :: "variant \<Rightarrow> event list \<Rightarrow> component \<Rightarrow> component" where
  "run v es c = fold (step v) es c"

text \<open>The milliseconds that pass during a trace, and traces that stay mounted.\<close>

fun elapsed :: "event list \<Rightarrow> nat" where
  "elapsed [] = 0"
| "elapsed (Elapse ms # es) = ms + elapsed es"
| "elapsed (_ # es) = elapsed es"

fun stays_mounted :: "event list \<Rightarrow> bool" where
  "stays_mounted [] = True"
| "stays_mounted (Mount # es) = False"
| "stays_mounted (Unmount # es) = False"
| "stays_mounted (_ # es) = stays_mounted es"

section \<open>A host for the examples\<close>

text \<open>
  A host whose local time is UTC.  Its \<^verbatim>\<open>Date\<close> constructor treats the primitives that
  are no strings as ECMAScript prescribes: a finite number within \<open>\<plusminus>8.64e15\<close> is truncated
  to an integer and every other number gives an invalid date, \<^verbatim>\<open>null\<close> and \<^verbatim>\<open>false\<close>
  are the instant 0, \<^verbatim>\<open>true\<close> is the instant 1, \<^verbatim>\<open>undefined\<close> is an invalid date.
  Parsing a date from text is left out: a string, and an object or array (which are
  parsed as their text), gives an invalid date here.  So is the notation of numbers from
  \<open>10^21\<close> on: \<open>numberToString\<close> is a placeholder.  No example reaches either.
\<close>

definition civil_month_day :: "int \<Rightarrow> nat \<times> nat" where
  "civil_month_day days =
     (let z = days + 719468;
          doe = z mod 146097;
          yoe = (doe - doe div 1460 + doe div 36524 - doe div 146096) div 365;
          doy = doe - (365 * yoe + yoe div 4 - yoe div 100);
          mp = (5 * doy + 2) div 153;
          d = doy - (153 * mp + 2) div 5 + 1;
          m = (if mp < 10 then mp + 3 else mp - 9)
      in (nat (m - 1), nat d))"

definition utc_host :: host where
  "utc_host =
     \<lparr>dateValue = (\<lambda>v. case v of
                     JNumber (Finite q) \<Rightarrow>
                       (if \<bar>q\<bar> \<le> 8640000000000000
                        then Date (if 0 \<le> q then \<lfloor>q\<rfloor> else \<lceil>q\<rceil>) else InvalidDate)
                   | JNull \<Rightarrow> Date 0
                   | JBoolean b \<Rightarrow> Date (if b then 1 else 0)
                   | _ \<Rightarrow> InvalidDate),
      getMonth = (\<lambda>t. fst (civil_month_day (t div 86400000))),
      getDate = (\<lambda>t. snd (civil_month_day (t div 86400000))),
      getHours = (\<lambda>t. nat ((t div 3600000) mod 24)),
      getMinutes = (\<lambda>t. nat ((t div 60000) mod 60)),
      numberToString = (\<lambda>q. [])\<rparr>"

section \<open>Properties of the time-window filter\<close>

lemma keep_bounded:
  assumes "spec_window_ms w = Some d"
  shows "keep w now item = spec_within now d item"
  using assms by (cases w; cases "originalDate item") (simp_all add: diff_def)

lemma keep_all: "spec_window_ms w = None \<Longrightarrow> keep w now item"
  by (cases w) simp_all

lemma keep_mono:
  assumes "spec_wider a b" and "keep b now item"
  shows "keep a now item"
proof (cases "spec_window_ms a")
  case None
  then show ?thesis by (rule keep_all)
next
  case (Some wa)
  with assms(1) obtain wb where b: "spec_window_ms b = Some wb" and le: "wb \<le> wa"
    by (auto split: option.splits)
  from assms(2) b have "spec_within now wb item"
    by (simp add: keep_bounded)
  with le have "spec_within now wa item"
    by (auto split: date.splits)
  with Some show ?thesis
    by (simp add: keep_bounded)
qed

text \<open>
  C1.  For every source sequence, every bounded window tag (1 hour, 6 hours, 24 hours,
  7 days, of 3600000, 21600000, 86400000 and 604800000 milliseconds) and every reference
  time, the filter returns exactly the readings whose origin instant lies no more than
  the window's duration before the reference time, in the order of the source sequence.
\<close>

theorem C1_filterData_bounded_window:
  assumes "spec_window_ms w = Some d"
  shows "filterData now w xs = filter (spec_within now d) xs"
proof -
  have "keep w now = spec_within now d"
    by (rule ext) (rule keep_bounded [OF assms])
  then show ?thesis
    by (simp add: filterData_def)
qed

text \<open>
  The one-hour window at reference time \<open>10000000\<close>: a reading exactly one hour old and a
  reading dated after the reference time stay; a reading one millisecond older and a
  reading with an invalid date go.
\<close>

theorem C1_filterData_bounded_window_witness:
  "spec_window_ms T_1hour = Some 3600000 \<and>
   filterData 10000000 T_1hour
     [\<lparr>timestamp = ''a'', temperature = JNumber (Finite 20), humidity = JNumber (Finite 50),
       originalDate = Date 6400000, doorStatus = JUndefined, imageData = JUndefined\<rparr>,
      \<lparr>timestamp = ''b'', temperature = JNumber (Finite 21), humidity = JNumber (Finite 51),
       originalDate = Date 6399999, doorStatus = JUndefined, imageData = JUndefined\<rparr>,
      \<lparr>timestamp = ''c'', temperature = JNumber (Finite 22), humidity = JNumber (Finite 52),
       originalDate = InvalidDate, doorStatus = JUndefined, imageData = JUndefined\<rparr>,
      \<lparr>timestamp = ''d'', temperature = JNumber (Finite 23), humidity = JNumber (Finite 53),
       originalDate = Date 10000001, doorStatus = JUndefined, imageData = JUndefined\<rparr>]
   = [\<lparr>timestamp = ''a'', temperature = JNumber (Finite 20), humidity = JNumber (Finite 50),
       originalDate = Date 6400000, doorStatus = JUndefined, imageData = JUndefined\<rparr>,
      \<lparr>timestamp = ''d'', temperature = JNumber (Finite 23), humidity = JNumber (Finite 53),
       originalDate = Date 10000001, doorStatus = JUndefined, imageData = JUndefined\<rparr>]"
  using C1_filterData_bounded_window [of T_1hour 3600000 10000000]
  by simp

text \<open>
  C2.  For a fixed source sequence and reference time the filter is monotone in the
  window: when tag \<open>a\<close> denotes a duration at least as long as tag \<open>b\<close> ("all" being the
  widest), every reading in the result for \<open>b\<close> is in the result for \<open>a\<close>.
\<close>

theorem C2_filterData_monotone:
  assumes "spec_wider a b"
  shows "set (filterData now b xs) \<subseteq> set (filterData now a xs)"
  using assms keep_mono [of a b now]
  by (auto simp: filterData_def)

theorem C2_filterData_monotone_witness:
  "spec_wider T_24hours T_1hour \<and>
   set (filterData 100000000 T_1hour
     [\<lparr>timestamp = ''a'', temperature = JNumber (Finite 20), humidity = JNumber (Finite 50),
       originalDate = Date 99000000, doorStatus = JUndefined, imageData = JUndefined\<rparr>,
      \<lparr>timestamp = ''b'', temperature = JNumber (Finite 21), humidity = JNumber (Finite 51),
       originalDate = Date 50000000, doorStatus = JUndefined, imageData = JUndefined\<rparr>])
   \<subseteq> set (filterData 100000000 T_24hours
     [\<lparr>timestamp = ''a'', temperature = JNumber (Finite 20), humidity = JNumber (Finite 50),
       originalDate = Date 99000000, doorStatus = JUndefined, imageData = JUndefined\<rparr>,
      \<lparr>timestamp = ''b'', temperature = JNumber (Finite 21), humidity = JNumber (Finite 51),
       originalDate = Date 50000000, doorStatus = JUndefined, imageData = JUndefined\<rparr>])"
proof -
  have w: "spec_wider T_24hours T_1hour"
    by simp
  from w C2_filterData_monotone [OF w] show ?thesis
    by blast
qed

text \<open>
  C3.  Filtering with the "all" tag is the identity: the source sequence comes back
  unchanged, with its length and its order, whatever the reference time.
\<close>

theorem C3_filterData_all_identity:
  "filterData now T_all xs = xs"
  by (simp add: filterData_def)

text \<open>
  C10.  Under a bounded window, a reading whose origin instant is strictly later than the
  reference time is retained: the age is negative, the test only bounds it from above.
\<close>

theorem C10_filterData_keeps_future:
  assumes "spec_window_ms w = Some d"
    and "item \<in> set xs"
    and "originalDate item = Date t"
    and "now < t"
  shows "item \<in> set (filterData now w xs)"
proof -
  have "keep w now item"
    using assms(1,3,4) by (cases w) (simp_all add: diff_def)
  with assms(2) show ?thesis
    by (simp add: filterData_def)
qed

theorem C10_filterData_keeps_future_witness:
  "spec_window_ms T_1hour = Some 3600000 \<and>
   \<lparr>timestamp = ''d'', temperature = JNumber (Finite 23), humidity = JNumber (Finite 53),
     originalDate = Date 10000001, doorStatus = JUndefined, imageData = JUndefined\<rparr>
   \<in> set (filterData 10000000 T_1hour
       [\<lparr>timestamp = ''d'', temperature = JNumber (Finite 23), humidity = JNumber (Finite 53),
         originalDate = Date 10000001, doorStatus = JUndefined, imageData = JUndefined\<rparr>])"
  using C10_filterData_keeps_future [of T_1hour 3600000
      "\<lparr>timestamp = ''d'', temperature = JNumber (Finite 23), humidity = JNumber (Finite 53),
        originalDate = Date 10000001, doorStatus = JUndefined, imageData = JUndefined\<rparr>"
      "[\<lparr>timestamp = ''d'', temperature = JNumber (Finite 23), humidity = JNumber (Finite 53),
         originalDate = Date 10000001, doorStatus = JUndefined, imageData = JUndefined\<rparr>]"
      10000001 10000000]
  by simp

section \<open>Properties of the latest-reading summary\<close>

lemma decimal_nonempty: "decimal n \<noteq> []"
  by (subst decimal.simps) simp

lemma decimal_20: "decimal 20 = ''20''"
  by code_simp

lemma decimal_50: "decimal 50 = ''50''"
  by code_simp


lemma toFixed_one_place:
  assumes "\<bar>q\<bar> < 10 ^ 21"
  shows "toFixed h (Finite q) 1 =
           (if q < 0 then ''-'' else []) @ decimal (nat \<lfloor>\<bar>q\<bar> * 10 + 1 / 2\<rfloor> div 10) @ ''.''
             @ [digit (nat \<lfloor>\<bar>q\<bar> * 10 + 1 / 2\<rfloor> mod 10)]"
proof -
  define n where "n = nat \<lfloor>\<bar>q\<bar> * 10 + 1 / 2\<rfloor>"
  show ?thesis
  proof (cases "n < 10")
    case True
    then have "decimal n = [digit n]" "decimal (n div 10) = ''0''"
      by (subst decimal.simps, simp add: digit_def)+
    with True assms show ?thesis
      by (simp add: toFixed_def n_def [symmetric] Let_def)
  next
    case False
    then have d: "decimal n = decimal (n div 10) @ [digit (n mod 10)]"
      by (subst decimal.simps) simp
    have "0 < length (decimal (n div 10))"
      using decimal_nonempty [of "n div 10"] by simp
    with d False assms show ?thesis
      by (simp add: toFixed_def n_def [symmetric] Let_def)
  qed
qed

lemma toFixed_20: "toFixed h (Finite 20) 1 = ''20.0''"
proof -
  have lt: "\<bar>20::rat\<bar> < 10 ^ 21"
    by simp
  have "\<lfloor>\<bar>20::rat\<bar> * 10 + 1 / 2\<rfloor> = 200"
    by (rule floor_unique) simp_all
  then have n: "nat \<lfloor>\<bar>20::rat\<bar> * 10 + 1 / 2\<rfloor> = 200"
    by simp
  show ?thesis
    unfolding toFixed_one_place [OF lt] n
    by (simp add: decimal_20 digit_def)
qed

lemma toFixed_50: "toFixed h (Finite 50) 1 = ''50.0''"
proof -
  have lt: "\<bar>50::rat\<bar> < 10 ^ 21"
    by simp
  have "\<lfloor>\<bar>50::rat\<bar> * 10 + 1 / 2\<rfloor> = 500"
    by (rule floor_unique) simp_all
  then have n: "nat \<lfloor>\<bar>50::rat\<bar> * 10 + 1 / 2\<rfloor> = 500"
    by simp
  show ?thesis
    unfolding toFixed_one_place [OF lt] n
    by (simp add: decimal_50 digit_def)
qed

text \<open>
  The integer that \<^verbatim>\<open>toFixed(1)\<close> prints, read as a number of tenths, is within one
  twentieth of the value.
\<close>

lemma nearest_tenth:
  fixes a :: rat
  assumes "0 \<le> a"
  shows "\<bar>of_nat (nat \<lfloor>a * 10 + 1 / 2\<rfloor>) / 10 - a\<bar> \<le> 1 / 20"
proof -
  have nn: "0 \<le> \<lfloor>a * 10 + 1 / 2\<rfloor>"
    using assms by simp
  have lo: "of_int \<lfloor>a * 10 + 1 / 2\<rfloor> \<le> a * 10 + 1 / 2"
    by (rule of_int_floor_le)
  have hi: "a * 10 + 1 / 2 < of_int \<lfloor>a * 10 + 1 / 2\<rfloor> + 1"
    using floor_correct [of "a * 10 + 1 / 2"] by simp
  have eq: "(of_nat (nat \<lfloor>a * 10 + 1 / 2\<rfloor>) :: rat) = of_int \<lfloor>a * 10 + 1 / 2\<rfloor>"
    using nn by simp
  from lo hi show ?thesis
    unfolding eq by linarith
qed

lemma getLatestReadings_nonempty:
  assumes "filtered \<noteq> []"
    and "temperature (last filtered) = JNumber t"
    and "humidity (last filtered) = JNumber u"
  shows "getLatestReadings h filtered = Inr \<lparr>temp = toFixed h t 1, humid = toFixed h u 1\<rparr>"
  using assms
  by (simp add: getLatestReadings_def call_toFixed_def last_conv_nth Let_def)

text \<open>
  C4.  On a non-empty filtered sequence the summary is the temperature and the humidity
  of the last element, each printed by \<^verbatim>\<open>toFixed(1)\<close>; for a value of magnitude below
  \<open>10^21\<close> that is the sign, the integer part, a point and one digit, of the nearest
  multiple of one tenth.  In particular a single reading taken at the reference time, of
  temperature 20 and humidity 50, passes the one-hour window and is summarised as
  \<^verbatim>\<open>20.0\<close> and \<^verbatim>\<open>50.0\<close>.  The fields are numbers, as the type of a reading
  declares.
\<close>

theorem C4_getLatestReadings_last:
  "(filtered \<noteq> [] \<and> temperature (last filtered) = JNumber t \<and> humidity (last filtered) = JNumber u
      \<longrightarrow> getLatestReadings h filtered = Inr \<lparr>temp = toFixed h t 1, humid = toFixed h u 1\<rparr>)
   \<and> (\<bar>q\<bar> < 10 ^ 21
      \<longrightarrow> toFixed h (Finite q) 1 =
            (if q < 0 then ''-'' else []) @ decimal (nat \<lfloor>\<bar>q\<bar> * 10 + 1 / 2\<rfloor> div 10) @ ''.''
              @ [digit (nat \<lfloor>\<bar>q\<bar> * 10 + 1 / 2\<rfloor> mod 10)])
   \<and> (originalDate r = Date T0 \<and> temperature r = JNumber (Finite 20)
        \<and> humidity r = JNumber (Finite 50)
      \<longrightarrow> filterData T0 T_1hour [r] = [r]
          \<and> getLatestReadings h (filterData T0 T_1hour [r]) = Inr \<lparr>temp = ''20.0'', humid = ''50.0''\<rparr>)"
proof (intro conjI impI)
  assume "filtered \<noteq> [] \<and> temperature (last filtered) = JNumber t
    \<and> humidity (last filtered) = JNumber u"
  then show "getLatestReadings h filtered = Inr \<lparr>temp = toFixed h t 1, humid = toFixed h u 1\<rparr>"
    by (simp add: getLatestReadings_nonempty)
next
  assume "\<bar>q\<bar> < 10 ^ 21"
  then show "toFixed h (Finite q) 1 =
      (if q < 0 then ''-'' else []) @ decimal (nat \<lfloor>\<bar>q\<bar> * 10 + 1 / 2\<rfloor> div 10) @ ''.''
        @ [digit (nat \<lfloor>\<bar>q\<bar> * 10 + 1 / 2\<rfloor> mod 10)]"
    by (rule toFixed_one_place)
next
  assume r: "originalDate r = Date T0 \<and> temperature r = JNumber (Finite 20)
    \<and> humidity r = JNumber (Finite 50)"
  then show f: "filterData T0 T_1hour [r] = [r]"
    by (simp add: filterData_def diff_def)
  from r have "getLatestReadings h [r]
      = Inr \<lparr>temp = toFixed h (Finite 20) 1, humid = toFixed h (Finite 50) 1\<rparr>"
    by (intro getLatestReadings_nonempty) simp_all
  then show "getLatestReadings h (filterData T0 T_1hour [r]) = Inr \<lparr>temp = ''20.0'', humid = ''50.0''\<rparr>"
    unfolding f toFixed_20 toFixed_50 .
qed

theorem C4_getLatestReadings_last_witness:
  "getLatestReadings utc_host
     [\<lparr>timestamp = ''11/14 22:13'', temperature = JNumber (Finite 19), humidity = JNumber (Finite 40),
       originalDate = Date 1700000000000, doorStatus = JUndefined, imageData = JUndefined\<rparr>,
      \<lparr>timestamp = ''11/14 22:14'', temperature = JNumber (Finite (-41 / 4)),
       humidity = JNumber (Finite (1 / 20)),
       originalDate = Date 1700000060000, doorStatus = JUndefined, imageData = JUndefined\<rparr>]
     = Inr \<lparr>temp = ''-10.3'', humid = ''0.1''\<rparr>
   \<and> toFixed utc_host (Finite (-41 / 4)) 1 = ''-10.3''
   \<and> filterData 1700000000000 T_1hour
       [\<lparr>timestamp = ''11/14 22:13'', temperature = JNumber (Finite 20), humidity = JNumber (Finite 50),
         originalDate = Date 1700000000000, doorStatus = JUndefined, imageData = JUndefined\<rparr>]
     = [\<lparr>timestamp = ''11/14 22:13'', temperature = JNumber (Finite 20), humidity = JNumber (Finite 50),
         originalDate = Date 1700000000000, doorStatus = JUndefined, imageData = JUndefined\<rparr>]
   \<and> getLatestReadings utc_host
       (filterData 1700000000000 T_1hour
         [\<lparr>timestamp = ''11/14 22:13'', temperature = JNumber (Finite 20), humidity = JNumber (Finite 50),
           originalDate = Date 1700000000000, doorStatus = JUndefined, imageData = JUndefined\<rparr>])
     = Inr \<lparr>temp = ''20.0'', humid = ''50.0''\<rparr>"
proof -
  let ?r1 = "\<lparr>timestamp = ''11/14 22:13'', temperature = JNumber (Finite 19),
      humidity = JNumber (Finite 40), originalDate = Date 1700000000000,
      doorStatus = JUndefined, imageData = JUndefined\<rparr>"
  let ?r2 = "\<lparr>timestamp = ''11/14 22:14'', temperature = JNumber (Finite (-41 / 4)),
      humidity = JNumber (Finite (1 / 20)), originalDate = Date 1700000060000,
      doorStatus = JUndefined, imageData = JUndefined\<rparr>"
  let ?r = "\<lparr>timestamp = ''11/14 22:13'', temperature = JNumber (Finite 20),
      humidity = JNumber (Finite 50), originalDate = Date 1700000000000,
      doorStatus = JUndefined, imageData = JUndefined\<rparr>"
  note c4 = C4_getLatestReadings_last [of "[?r1, ?r2]" "Finite (-41 / 4)" "Finite (1 / 20)"
      utc_host "-41 / 4" ?r 1700000000000]
  have t: "toFixed utc_host (Finite (-41 / 4)) 1 = ''-10.3''"
    by code_simp
  have u: "toFixed utc_host (Finite (1 / 20)) 1 = ''0.1''"
    by code_simp
  have "getLatestReadings utc_host [?r1, ?r2]
      = Inr \<lparr>temp = toFixed utc_host (Finite (-41 / 4)) 1,
             humid = toFixed utc_host (Finite (1 / 20)) 1\<rparr>"
    by (rule c4 [THEN conjunct1, THEN mp]) simp
  then have a: "getLatestReadings utc_host [?r1, ?r2] = Inr \<lparr>temp = ''-10.3'', humid = ''0.1''\<rparr>"
    unfolding t u .
  have b: "filterData 1700000000000 T_1hour [?r] = [?r]
      \<and> getLatestReadings utc_host (filterData 1700000000000 T_1hour [?r])
          = Inr \<lparr>temp = ''20.0'', humid = ''50.0''\<rparr>"
    by (rule c4 [THEN conjunct2, THEN conjunct2, THEN mp]) simp
  from a t b show ?thesis
    by blast
qed

text \<open>
  C5.  On the empty filtered sequence the summary is the pair of placeholders, returned
  without an exception.  In particular a single reading two hours old is outside the
  one-hour window, so that the filtered sequence is empty and the summary is the
  placeholders.
\<close>

theorem C5_getLatestReadings_empty:
  "getLatestReadings h [] = Inr \<lparr>temp = ''--'', humid = ''--''\<rparr>
   \<and> (originalDate r = Date (now - 2 * 60 * 60 * 1000)
      \<longrightarrow> filterData now T_1hour [r] = []
          \<and> getLatestReadings h (filterData now T_1hour [r]) = Inr \<lparr>temp = ''--'', humid = ''--''\<rparr>)"
  by (simp add: getLatestReadings_def filterData_def diff_def)

theorem C5_getLatestReadings_empty_witness:
  "getLatestReadings utc_host [] = Inr \<lparr>temp = ''--'', humid = ''--''\<rparr>
   \<and> filterData 1700007200000 T_1hour
       [\<lparr>timestamp = ''11/14 22:13'', temperature = JNumber (Finite 20), humidity = JNumber (Finite 50),
         originalDate = Date 1700000000000, doorStatus = JUndefined, imageData = JUndefined\<rparr>] = []
   \<and> getLatestReadings utc_host
       (filterData 1700007200000 T_1hour
         [\<lparr>timestamp = ''11/14 22:13'', temperature = JNumber (Finite 20), humidity = JNumber (Finite 50),
           originalDate = Date 1700000000000, doorStatus = JUndefined, imageData = JUndefined\<rparr>])
     = Inr \<lparr>temp = ''--'', humid = ''--''\<rparr>"
  using C5_getLatestReadings_empty [of utc_host
      "\<lparr>timestamp = ''11/14 22:13'', temperature = JNumber (Finite 20), humidity = JNumber (Finite 50),
        originalDate = Date 1700000000000, doorStatus = JUndefined, imageData = JUndefined\<rparr>"
      1700007200000]
  by simp

section \<open>Properties of the normalisation\<close>

lemma js_or_undefined: "js_or JUndefined d = d"
  by (simp add: js_or_def)

lemma js_or_number:
  assumes "n \<noteq> NaN"
  shows "js_or (JNumber n) (JNumber (Finite 0)) = JNumber n"
  using assms by (simp add: js_or_def)

lemma newDate_ok: "\<not> toPrimitive_throws v \<Longrightarrow> newDate h v = Inr (dateValue h v)"
  by (simp add: newDate_def)

lemma newDate_throws: "toPrimitive_throws v \<Longrightarrow> newDate h v = Inl TypeError"
  by (simp add: newDate_def)

text \<open>
  C6, as the code has it.  Normalising a raw record (a parsed object) yields a reading
  unless \<^verbatim>\<open>new Date\<close> rejects its \<^verbatim>\<open>time\<close>, in which case it throws a TypeError in both
  variants.  In the reading a missing \<^verbatim>\<open>temperature\<close> or \<^verbatim>\<open>humidity\<close> is 0 and a number
  that is present is kept (JSON has no NaN); this holds in both variants.  In the part000
  variant a missing \<^verbatim>\<open>doorStatus\<close> is \<^verbatim>\<open>'closed'\<close>; the readings of the Dashboard variant
  have no \<^verbatim>\<open>doorStatus\<close> at all.
\<close>

theorem C6_formatItem_defaults:
  "(\<not> toPrimitive_throws (getProp (JObject kvs) ''time'') \<longrightarrow>
      (\<exists>r. formatItem_part000 h (JObject kvs) = Inr r
        \<and> (map_of kvs ''temperature'' = None \<longrightarrow> temperature r = JNumber (Finite 0))
        \<and> (\<forall>n. map_of kvs ''temperature'' = Some (JNumber n) \<and> n \<noteq> NaN \<longrightarrow> temperature r = JNumber n)
        \<and> (map_of kvs ''humidity'' = None \<longrightarrow> humidity r = JNumber (Finite 0))
        \<and> (\<forall>n. map_of kvs ''humidity'' = Some (JNumber n) \<and> n \<noteq> NaN \<longrightarrow> humidity r = JNumber n)
        \<and> (map_of kvs ''doorStatus'' = None \<longrightarrow> doorStatus r = JString ''closed''))
      \<and> (\<exists>r. formatItem_Dashboard h (JObject kvs) = Inr r
        \<and> (map_of kvs ''temperature'' = None \<longrightarrow> temperature r = JNumber (Finite 0))
        \<and> (\<forall>n. map_of kvs ''temperature'' = Some (JNumber n) \<and> n \<noteq> NaN \<longrightarrow> temperature r = JNumber n)
        \<and> (map_of kvs ''humidity'' = None \<longrightarrow> humidity r = JNumber (Finite 0))
        \<and> (\<forall>n. map_of kvs ''humidity'' = Some (JNumber n) \<and> n \<noteq> NaN \<longrightarrow> humidity r = JNumber n)
        \<and> doorStatus r = JUndefined))
   \<and> (toPrimitive_throws (getProp (JObject kvs) ''time'') \<longrightarrow>
        formatItem_part000 h (JObject kvs) = Inl TypeError
        \<and> formatItem_Dashboard h (JObject kvs) = Inl TypeError)"
proof (intro conjI impI)
  assume ok: "\<not> toPrimitive_throws (getProp (JObject kvs) ''time'')"
  show "\<exists>r. formatItem_part000 h (JObject kvs) = Inr r
        \<and> (map_of kvs ''temperature'' = None \<longrightarrow> temperature r = JNumber (Finite 0))
        \<and> (\<forall>n. map_of kvs ''temperature'' = Some (JNumber n) \<and> n \<noteq> NaN \<longrightarrow> temperature r = JNumber n)
        \<and> (map_of kvs ''humidity'' = None \<longrightarrow> humidity r = JNumber (Finite 0))
        \<and> (\<forall>n. map_of kvs ''humidity'' = Some (JNumber n) \<and> n \<noteq> NaN \<longrightarrow> humidity r = JNumber n)
        \<and> (map_of kvs ''doorStatus'' = None \<longrightarrow> doorStatus r = JString ''closed'')"
    unfolding formatItem_part000_def newDate_ok [OF ok]
    by (simp add: js_or_undefined js_or_number)
  show "\<exists>r. formatItem_Dashboard h (JObject kvs) = Inr r
        \<and> (map_of kvs ''temperature'' = None \<longrightarrow> temperature r = JNumber (Finite 0))
        \<and> (\<forall>n. map_of kvs ''temperature'' = Some (JNumber n) \<and> n \<noteq> NaN \<longrightarrow> temperature r = JNumber n)
        \<and> (map_of kvs ''humidity'' = None \<longrightarrow> humidity r = JNumber (Finite 0))
        \<and> (\<forall>n. map_of kvs ''humidity'' = Some (JNumber n) \<and> n \<noteq> NaN \<longrightarrow> humidity r = JNumber n)
        \<and> doorStatus r = JUndefined"
    unfolding formatItem_Dashboard_def newDate_ok [OF ok]
    by (simp add: js_or_undefined js_or_number)
next
  assume bad: "toPrimitive_throws (getProp (JObject kvs) ''time'')"
  show "formatItem_part000 h (JObject kvs) = Inl TypeError"
    unfolding formatItem_part000_def newDate_throws [OF bad] by simp
  show "formatItem_Dashboard h (JObject kvs) = Inl TypeError"
    unfolding formatItem_Dashboard_def newDate_throws [OF bad] by simp
qed

text \<open>
  A record without \<^verbatim>\<open>temperature\<close> and \<^verbatim>\<open>doorStatus\<close>, and a record whose \<^verbatim>\<open>time\<close> is
  the object \<^verbatim>\<open>{"toString": 0}\<close>.
\<close>

theorem C6_formatItem_defaults_witness:
  "(\<exists>r. formatItem_part000 utc_host
          (JObject [(''time'', JNumber (Finite 1700000000000)),
                    (''humidity'', JNumber (Finite (91 / 2)))]) = Inr r
      \<and> temperature r = JNumber (Finite 0)
      \<and> humidity r = JNumber (Finite (91 / 2))
      \<and> doorStatus r = JString ''closed'')
   \<and> (\<exists>r. formatItem_Dashboard utc_host
          (JObject [(''time'', JNumber (Finite 1700000000000)),
                    (''humidity'', JNumber (Finite (91 / 2)))]) = Inr r
      \<and> temperature r = JNumber (Finite 0)
      \<and> humidity r = JNumber (Finite (91 / 2))
      \<and> doorStatus r = JUndefined)
   \<and> formatItem_part000 utc_host
        (JObject [(''time'', JObject [(''toString'', JNumber (Finite 0))])]) = Inl TypeError
   \<and> formatItem_Dashboard utc_host
        (JObject [(''time'', JObject [(''toString'', JNumber (Finite 0))])]) = Inl TypeError"
proof -
  let ?kvs = "[(''time'', JNumber (Finite 1700000000000)), (''humidity'', JNumber (Finite (91 / 2)))]"
  let ?bad = "[(''time'', JObject [(''toString'', JNumber (Finite 0))])]"
  have ok: "\<not> toPrimitive_throws (getProp (JObject ?kvs) ''time'')"
    by simp
  have bad: "toPrimitive_throws (getProp (JObject ?bad) ''time'')"
    by simp
  note c6 = C6_formatItem_defaults [of ?kvs utc_host, THEN conjunct1, THEN mp, OF ok]
  from c6 [THEN conjunct1]
  obtain r where r: "formatItem_part000 utc_host (JObject ?kvs) = Inr r"
    and t: "map_of ?kvs ''temperature'' = None \<longrightarrow> temperature r = JNumber (Finite 0)"
    and u: "\<forall>n. map_of ?kvs ''humidity'' = Some (JNumber n) \<and> n \<noteq> NaN \<longrightarrow> humidity r = JNumber n"
    and d: "map_of ?kvs ''doorStatus'' = None \<longrightarrow> doorStatus r = JString ''closed''"
    by (elim exE conjE) (rule that)
  from t u d have "temperature r = JNumber (Finite 0) \<and> humidity r = JNumber (Finite (91 / 2))
      \<and> doorStatus r = JString ''closed''"
    by simp
  with r have part000: "\<exists>r. formatItem_part000 utc_host (JObject ?kvs) = Inr r
      \<and> temperature r = JNumber (Finite 0) \<and> humidity r = JNumber (Finite (91 / 2))
      \<and> doorStatus r = JString ''closed''"
    by blast
  from c6 [THEN conjunct2]
  obtain r' where r': "formatItem_Dashboard utc_host (JObject ?kvs) = Inr r'"
    and t': "map_of ?kvs ''temperature'' = None \<longrightarrow> temperature r' = JNumber (Finite 0)"
    and u': "\<forall>n. map_of ?kvs ''humidity'' = Some (JNumber n) \<and> n \<noteq> NaN \<longrightarrow> humidity r' = JNumber n"
    and d': "doorStatus r' = JUndefined"
    by (elim exE conjE) (rule that)
  from t' u' d' have "temperature r' = JNumber (Finite 0) \<and> humidity r' = JNumber (Finite (91 / 2))
      \<and> doorStatus r' = JUndefined"
    by simp
  with r' have dashboard: "\<exists>r. formatItem_Dashboard utc_host (JObject ?kvs) = Inr r
      \<and> temperature r = JNumber (Finite 0) \<and> humidity r = JNumber (Finite (91 / 2))
      \<and> doorStatus r = JUndefined"
    by blast
  note C6_formatItem_defaults [of ?bad utc_host, THEN conjunct2, THEN mp, OF bad]
  with part000 dashboard show ?thesis
    by blast
qed

text \<open>
  C6 claims, of every raw record, that normalisation yields a reading in which a missing
  \<^verbatim>\<open>doorStatus\<close> has become \<^verbatim>\<open>'closed'\<close>.  The Dashboard variant normalises the record
  \<^verbatim>\<open>{"time": 1700000000000, "temperature": 20, "humidity": 50}\<close> to a reading without
  \<^verbatim>\<open>doorStatus\<close>; and neither variant yields a reading of the record
  \<^verbatim>\<open>{"time": {"toString": 0}, "temperature": 20, "humidity": 50}\<close>.
\<close>

theorem C6_no_doorStatus_or_no_reading_counterexample:
  "formatItem_Dashboard utc_host
     (JObject [(''time'', JNumber (Finite 1700000000000)),
               (''temperature'', JNumber (Finite 20)), (''humidity'', JNumber (Finite 50))])
     = Inr \<lparr>timestamp = ''11/14 22:13'', temperature = JNumber (Finite 20),
            humidity = JNumber (Finite 50), originalDate = Date 1700000000000,
            doorStatus = JUndefined, imageData = JUndefined\<rparr>
   \<and> JUndefined \<noteq> JString ''closed''
   \<and> formatItem_part000 utc_host
       (JObject [(''time'', JObject [(''toString'', JNumber (Finite 0))]),
                 (''temperature'', JNumber (Finite 20)), (''humidity'', JNumber (Finite 50))])
     = Inl TypeError
   \<and> formatItem_Dashboard utc_host
       (JObject [(''time'', JObject [(''toString'', JNumber (Finite 0))]),
                 (''temperature'', JNumber (Finite 20)), (''humidity'', JNumber (Finite 50))])
     = Inl TypeError"
proof -
  have "formattedTime utc_host (Date 1700000000000) = ''11/14 22:13''"
    by code_simp
  then show ?thesis
    by (simp add: formatItem_Dashboard_def formatItem_part000_def newDate_def js_or_def
          utc_host_def)
qed

text \<open>
  The raw record \<^verbatim>\<open>{time: T0, temperature: 20, humidity: 50}\<close> is normalised, in both
  variants, to a reading of temperature 20 and humidity 50 taken at \<open>T0\<close>, on a host
  whose \<^verbatim>\<open>Date\<close> constructor reads the \<^verbatim>\<open>time\<close> field as the instant \<open>T0\<close>.
\<close>

lemma formatItem_example:
  assumes "newDate h tv = Inr (Date T0)"
  shows "\<exists>r. formatItem_part000 h
            (JObject [(''time'', tv), (''temperature'', JNumber (Finite 20)),
                      (''humidity'', JNumber (Finite 50))]) = Inr r
           \<and> originalDate r = Date T0 \<and> temperature r = JNumber (Finite 20)
           \<and> humidity r = JNumber (Finite 50)"
    and "\<exists>r. formatItem_Dashboard h
            (JObject [(''time'', tv), (''temperature'', JNumber (Finite 20)),
                      (''humidity'', JNumber (Finite 50))]) = Inr r
           \<and> originalDate r = Date T0 \<and> temperature r = JNumber (Finite 20)
           \<and> humidity r = JNumber (Finite 50)"
  using assms
  by (simp_all add: formatItem_part000_def formatItem_Dashboard_def js_or_def)

section \<open>Properties of the failure path\<close>

lemma fetchData_Dashboard_failed:
  "fetch_failed (formatItem_Dashboard h) r \<Longrightarrow> fetchData_Dashboard h r = on_catch"
  by (auto simp: fetch_failed_def fetchData_Dashboard_def split: fetch_result.splits sum.splits)

lemma fetchData_part000_failed:
  "fetch_failed (formatItem_part000 h) r \<Longrightarrow> fetchData_part000 h r = on_catch"
  by (auto simp: fetch_failed_def fetchData_part000_def split: fetch_result.splits sum.splits)

lemma apply_on_catch:
  "apply_calls on_catch s = s\<lparr>error := Some fetch_error_message, loading := False\<rparr>"
  by (simp add: apply_calls_def on_catch_def)

text \<open>
  C8, as the code has it.  When a fetch fails, either variant sets the error cell to the
  static message and the loading cell to false, and changes nothing else: the reading
  sequence fetched before stays as it was.
\<close>

theorem C8_failed_fetch_keeps_data:
  "(fetch_failed (formatItem_Dashboard h) r \<longrightarrow>
      apply_calls (fetchData_Dashboard h r) s = s\<lparr>error := Some fetch_error_message, loading := False\<rparr>
      \<and> data (apply_calls (fetchData_Dashboard h r) s) = data s)
   \<and> (fetch_failed (formatItem_part000 h) r \<longrightarrow>
      apply_calls (fetchData_part000 h r) s = s\<lparr>error := Some fetch_error_message, loading := False\<rparr>
      \<and> data (apply_calls (fetchData_part000 h r) s) = data s)"
  by (simp add: fetchData_Dashboard_failed fetchData_part000_failed apply_on_catch)

text \<open>
  The Dashboard variant fetches once, in its initial state, and here the response is
  \<^verbatim>\<open>[null]\<close>.  The part000 variant first receives one record, and at the next poll a
  record whose \<^verbatim>\<open>time\<close> the \<^verbatim>\<open>Date\<close> constructor rejects: the reading of the first poll
  is still held.
\<close>

theorem C8_failed_fetch_keeps_data_witness:
  "fetch_failed (formatItem_Dashboard utc_host) (Json (JArray [JNull]))
   \<and> data (apply_calls (fetchData_Dashboard utc_host (Json (JArray [JNull]))) initial_state) = []
   \<and> fetch_failed (formatItem_part000 utc_host)
       (Json (JArray [JObject [(''time'', JObject [(''toString'', JNumber (Finite 0))])]]))
   \<and> data (apply_calls
        (fetchData_part000 utc_host
          (Json (JArray [JObject [(''time'', JObject [(''toString'', JNumber (Finite 0))])]])))
        (apply_calls
          (fetchData_part000 utc_host
            (Json (JArray [JObject [(''time'', JNumber (Finite 1700000000000)),
                                    (''temperature'', JNumber (Finite 20)),
                                    (''humidity'', JNumber (Finite 50))]])))
          initial_state))
     = [\<lparr>timestamp = ''11/14 22:13'', temperature = JNumber (Finite 20),
         humidity = JNumber (Finite 50), originalDate = Date 1700000000000,
         doorStatus = JString ''closed'',
         imageData = JObject [(''reading'', JNumber (Finite 0))]\<rparr>]"
proof -
  let ?null = "Json (JArray [JNull])"
  let ?bad = "Json (JArray [JObject [(''time'', JObject [(''toString'', JNumber (Finite 0))])]])"
  let ?good = "Json (JArray [JObject [(''time'', JNumber (Finite 1700000000000)),
      (''temperature'', JNumber (Finite 20)), (''humidity'', JNumber (Finite 50))]])"
  let ?s = "apply_calls (fetchData_part000 utc_host ?good) initial_state"
  have f: "fetch_failed (formatItem_Dashboard utc_host) ?null"
    by (simp add: fetch_failed_def formattedData_def formatItem_Dashboard_def)
  have g: "fetch_failed (formatItem_part000 utc_host) ?bad"
    by (simp add: fetch_failed_def formattedData_def formatItem_part000_def newDate_def)
  have d: "data (apply_calls (fetchData_Dashboard utc_host ?null) initial_state)
      = data initial_state"
    using C8_failed_fetch_keeps_data [of utc_host ?null initial_state, THEN conjunct1, THEN mp, OF f]
    by (rule conjunct2)
  have p: "data (apply_calls (fetchData_part000 utc_host ?bad) ?s) = data ?s"
    using C8_failed_fetch_keeps_data [of utc_host ?bad ?s, THEN conjunct2, THEN mp, OF g]
    by (rule conjunct2)
  have s: "data ?s = [\<lparr>timestamp = ''11/14 22:13'', temperature = JNumber (Finite 20),
      humidity = JNumber (Finite 50), originalDate = Date 1700000000000,
      doorStatus = JString ''closed'',
      imageData = JObject [(''reading'', JNumber (Finite 0))]\<rparr>]"
    by code_simp
  have i: "data initial_state = []"
    by (simp add: initial_state_def)
  from f g d p show ?thesis
    unfolding s i by blast
qed

text \<open>
  C8 claims that the two variants differ on a failed fetch: that one of them, unlike the
  other, clears the reading sequence.  Clearing the sequence is calling \<^verbatim>\<open>setData\<close>.
  When the fetch started by mounting is rejected, both variants issue the same two calls,
  \<^verbatim>\<open>setError\<close> and \<^verbatim>\<open>setLoading\<close>, and none to \<^verbatim>\<open>setData\<close>: the sequence of the
  Dashboard variant is empty then because nothing was fetched, not because it was
  cleared.  And when the part000 variant has received a record and its next poll is
  rejected, all the calls it has issued leave the reading of the first poll in the
  sequence.
\<close>

theorem C8_no_variant_clears_counterexample:
  "map snd (issued (run (variant_Dashboard utc_host) [Mount, Settle Rejected] initial_component))
     = [SetError (Some fetch_error_message), SetLoading False]
   \<and> map snd (issued (run (variant_part000 utc_host) [Mount, Settle Rejected] initial_component))
     = [SetError (Some fetch_error_message), SetLoading False]
   \<and> data (apply_calls
        (map snd (issued (run (variant_part000 utc_host)
          [Mount,
           Settle (Json (JArray [JObject [(''time'', JNumber (Finite 1700000000000)),
                                          (''temperature'', JNumber (Finite 20)),
                                          (''humidity'', JNumber (Finite 50))]])),
           Elapse 5000,
           Settle Rejected]
          initial_component)))
        initial_state)
     = [\<lparr>timestamp = ''11/14 22:13'', temperature = JNumber (Finite 20),
         humidity = JNumber (Finite 50), originalDate = Date 1700000000000,
         doorStatus = JString ''closed'',
         imageData = JObject [(''reading'', JNumber (Finite 0))]\<rparr>]"
proof -
  have a: "map snd (issued (run (variant_Dashboard utc_host) [Mount, Settle Rejected]
      initial_component)) = [SetError (Some fetch_error_message), SetLoading False]"
    by (simp add: run_def variant_Dashboard_def mountEffect_Dashboard_def initial_component_def
          fetchData_Dashboard_def on_catch_def)
  have b: "map snd (issued (run (variant_part000 utc_host) [Mount, Settle Rejected]
      initial_component)) = [SetError (Some fetch_error_message), SetLoading False]"
    by (simp add: run_def variant_part000_def mountEffect_part000_def initial_component_def
          fetchData_part000_def on_catch_def)
  have c: "data (apply_calls
        (map snd (issued (run (variant_part000 utc_host)
          [Mount,
           Settle (Json (JArray [JObject [(''time'', JNumber (Finite 1700000000000)),
                                          (''temperature'', JNumber (Finite 20)),
                                          (''humidity'', JNumber (Finite 50))]])),
           Elapse 5000,
           Settle Rejected]
          initial_component)))
        initial_state)
     = [\<lparr>timestamp = ''11/14 22:13'', temperature = JNumber (Finite 20),
         humidity = JNumber (Finite 50), originalDate = Date 1700000000000,
         doorStatus = JString ''closed'',
         imageData = JObject [(''reading'', JNumber (Finite 0))]\<rparr>]"
    by code_simp
  from a b c show ?thesis
    by blast
qed

section \<open>Properties of mounting, polling and teardown\<close>

lemma div_acc: "(a::nat) div p + (a mod p + s) div p = (a + s) div p"
proof (cases "p = 0")
  case True
  then show ?thesis by simp
next
  case False
  have "(a + s) div p = (p * (a div p) + (a mod p + s)) div p"
    by (simp add: add.assoc [symmetric])
  also have "\<dots> = a div p + (a mod p + s) div p"
    using False by (rule div_mult_self4)
  finally show ?thesis by simp
qed

lemma funpow_CallFetchData:
  "(exec CallFetchData ^^ k) c
     = c\<lparr>invocations := invocations c + k, inflight := inflight c + k\<rparr>"
  by (induction k arbitrary: c) simp_all

lemma step_Mount_invocations:
  "invocations (step (variant_Dashboard h) Mount c) = invocations c + 1"
  "invocations (step (variant_part000 h) Mount c) = invocations c + 1"
  by (simp_all add: variant_Dashboard_def variant_part000_def mountEffect_Dashboard_def
        mountEffect_part000_def)

lemma run_Cons: "run v (e # es) c = run v es (step v e c)"
  by (simp add: run_def)

lemma run_Nil: "run v [] c = c"
  by (simp add: run_def)

lemma run_timer:
  assumes "stays_mounted es" and "interval c = Some (p, e)" and "e < p"
  shows "invocations (run v es c) = invocations c + (e + elapsed es) div p
         \<and> interval (run v es c) = Some (p, (e + elapsed es) mod p)
         \<and> mounted (run v es c) = mounted c"
  using assms
proof (induction es arbitrary: c e)
  case Nil
  then show ?case by (simp add: run_Nil)
next
  case (Cons ev es)
  show ?case
  proof (cases ev)
    case Mount
    with Cons.prems show ?thesis by simp
  next
    case Unmount
    with Cons.prems show ?thesis by simp
  next
    case (Elapse ms)
    let ?c = "step v ev c"
    have i: "interval ?c = Some (p, (e + ms) mod p)"
      and n: "invocations ?c = invocations c + (e + ms) div p"
      and m: "mounted ?c = mounted c"
      using Cons.prems(2) Elapse by (simp_all add: funpow_CallFetchData)
    from Cons.prems(1) Elapse have s: "stays_mounted es" by simp
    from Cons.prems(3) have "(e + ms) mod p < p" by simp
    from Cons.IH [OF s i this]
    have "invocations (run v es ?c) = invocations ?c + ((e + ms) mod p + elapsed es) div p"
      and "interval (run v es ?c) = Some (p, ((e + ms) mod p + elapsed es) mod p)"
      and "mounted (run v es ?c) = mounted ?c"
      by simp_all
    with n m have "invocations (run v es ?c)
        = invocations c + ((e + ms) div p + ((e + ms) mod p + elapsed es) div p)"
      and "interval (run v es ?c) = Some (p, (e + ms + elapsed es) mod p)"
      and "mounted (run v es ?c) = mounted c"
      by (simp_all add: mod_add_left_eq)
    then have "invocations (run v es ?c) = invocations c + (e + ms + elapsed es) div p"
      and "interval (run v es ?c) = Some (p, (e + ms + elapsed es) mod p)"
      and "mounted (run v es ?c) = mounted c"
      unfolding div_acc by simp_all
    then show ?thesis
      unfolding run_Cons Elapse by (simp add: add.assoc del: step.simps)
  next
    case (Settle r)
    let ?c = "step v ev c"
    have i: "interval ?c = Some (p, e)"
      and n: "invocations ?c = invocations c"
      and m: "mounted ?c = mounted c"
      using Cons.prems(2) Settle by simp_all
    from Cons.prems(1) Settle have s: "stays_mounted es" by simp
    from Cons.IH [OF s i Cons.prems(3)] n m Settle show ?thesis
      by (simp add: run_Cons)
  qed
qed

lemma step_no_timer:
  assumes "v = variant_Dashboard h \<or> v = variant_part000 h"
    and "ev \<noteq> Mount" and "interval c = None"
  shows "interval (step v ev c) = None \<and> invocations (step v ev c) = invocations c"
  using assms
  by (cases ev)
     (auto simp: variant_Dashboard_def variant_part000_def mountEffect_Dashboard_def
        mountEffect_part000_def)

lemma run_no_timer:
  assumes "v = variant_Dashboard h \<or> v = variant_part000 h"
    and "Mount \<notin> set es" and "interval c = None"
  shows "invocations (run v es c) = invocations c \<and> interval (run v es c) = None"
  using assms(2,3)
proof (induction es arbitrary: c)
  case Nil
  then show ?case by (simp add: run_Nil)
next
  case (Cons ev es)
  from Cons.prems have "ev \<noteq> Mount" by auto
  from step_no_timer [OF assms(1) this Cons.prems(2)]
  have "interval (step v ev c) = None" and "invocations (step v ev c) = invocations c"
    by simp_all
  with Cons show ?case
    by (simp add: run_Cons)
qed

lemma step_Unmount_part000:
  "interval (step (variant_part000 h) Unmount c) = None"
  "invocations (step (variant_part000 h) Unmount c) = invocations c"
  "inflight (step (variant_part000 h) Unmount c) = inflight c"
  "issued (step (variant_part000 h) Unmount c) = issued c"
  "mounted (step (variant_part000 h) Unmount c) = False"
  by (simp_all add: variant_part000_def mountEffect_part000_def)

lemma step_Unmount_Dashboard:
  "interval (step (variant_Dashboard h) Unmount c) = interval c"
  "invocations (step (variant_Dashboard h) Unmount c) = invocations c"
  "inflight (step (variant_Dashboard h) Unmount c) = inflight c"
  "issued (step (variant_Dashboard h) Unmount c) = issued c"
  "mounted (step (variant_Dashboard h) Unmount c) = False"
  by (simp_all add: variant_Dashboard_def mountEffect_Dashboard_def)

lemma after_Mount_part000:
  "interval (step (variant_part000 h) Mount c) = Some (5000, 0)"
  by (simp add: variant_part000_def mountEffect_part000_def)

lemma after_Mount_Dashboard:
  "interval (step (variant_Dashboard h) Mount c) = interval c"
  by (simp add: variant_Dashboard_def mountEffect_Dashboard_def)

text \<open>
  C7, as the code has it.  Mounting invokes \<^verbatim>\<open>fetchData\<close> once, in both variants.  In
  the part000 variant the invocations of a component that stays mounted number one plus
  one for every 5000 milliseconds passed since mounting; teardown removes the timer, and
  from then on no time that passes invokes \<^verbatim>\<open>fetchData\<close>.  The Dashboard variant
  registers no timer: however long it stays mounted, \<^verbatim>\<open>fetchData\<close> is invoked once.
\<close>

theorem C7_mount_poll_teardown:
  "(invocations (step (variant_part000 h) Mount c) = invocations c + 1
      \<and> invocations (step (variant_Dashboard h) Mount c) = invocations c + 1)
   \<and> (stays_mounted es \<longrightarrow>
        invocations (run (variant_part000 h) (Mount # es) initial_component)
          = 1 + elapsed es div 5000)
   \<and> (interval (step (variant_part000 h) Unmount c) = None
      \<and> (Mount \<notin> set es' \<longrightarrow>
            invocations (run (variant_part000 h) (Unmount # es') c) = invocations c))
   \<and> (Mount \<notin> set es' \<longrightarrow>
        invocations (run (variant_Dashboard h) (Mount # es') initial_component) = 1
        \<and> interval (run (variant_Dashboard h) (Mount # es') initial_component) = None)"
proof (intro conjI impI)
  show "invocations (step (variant_part000 h) Mount c) = invocations c + 1"
    and "invocations (step (variant_Dashboard h) Mount c) = invocations c + 1"
    by (rule step_Mount_invocations)+
next
  assume "stays_mounted es"
  with run_timer [where v = "variant_part000 h" and es = es and p = 5000 and e = 0
      and c = "step (variant_part000 h) Mount initial_component"] after_Mount_part000 [of h]
  have "invocations (run (variant_part000 h) es (step (variant_part000 h) Mount initial_component))
      = invocations (step (variant_part000 h) Mount initial_component) + elapsed es div 5000"
    by (simp del: step.simps)
  also have "invocations (step (variant_part000 h) Mount initial_component) = 1"
    unfolding step_Mount_invocations by (simp add: initial_component_def)
  finally show "invocations (run (variant_part000 h) (Mount # es) initial_component)
      = 1 + elapsed es div 5000"
    unfolding run_Cons .
next
  show "interval (step (variant_part000 h) Unmount c) = None"
    by (rule step_Unmount_part000)
next
  assume "Mount \<notin> set es'"
  with run_no_timer [where v = "variant_part000 h" and h = h and es = es'
      and c = "step (variant_part000 h) Unmount c"]
  have "invocations (run (variant_part000 h) es' (step (variant_part000 h) Unmount c))
      = invocations (step (variant_part000 h) Unmount c)"
    by (simp add: step_Unmount_part000 del: step.simps)
  then show "invocations (run (variant_part000 h) (Unmount # es') c) = invocations c"
    unfolding run_Cons step_Unmount_part000 .
next
  assume m: "Mount \<notin> set es'"
  have "interval (step (variant_Dashboard h) Mount initial_component) = None"
    unfolding after_Mount_Dashboard by (simp add: initial_component_def)
  with m run_no_timer [where v = "variant_Dashboard h" and h = h and es = es'
      and c = "step (variant_Dashboard h) Mount initial_component"]
  have "invocations (run (variant_Dashboard h) es' (step (variant_Dashboard h) Mount initial_component))
      = invocations (step (variant_Dashboard h) Mount initial_component)"
    and i: "interval (run (variant_Dashboard h) es' (step (variant_Dashboard h) Mount initial_component))
      = None"
    by (simp_all del: step.simps)
  then show "invocations (run (variant_Dashboard h) (Mount # es') initial_component) = 1"
    unfolding run_Cons step_Mount_invocations by (simp add: initial_component_def)
  from i show "interval (run (variant_Dashboard h) (Mount # es') initial_component) = None"
    unfolding run_Cons .
qed

theorem C7_mount_poll_teardown_witness:
  "invocations (run (variant_part000 utc_host) [Mount, Elapse 4999, Settle Rejected, Elapse 5002]
      initial_component) = 3
   \<and> invocations (run (variant_part000 utc_host) [Unmount, Elapse 60000]
      (run (variant_part000 utc_host) [Mount, Elapse 5000] initial_component)) = 2
   \<and> invocations (run (variant_Dashboard utc_host) [Mount, Elapse 60000] initial_component) = 1"
proof -
  note c7 = C7_mount_poll_teardown [of utc_host
      "run (variant_part000 utc_host) [Mount, Elapse 5000] initial_component"
      "[Elapse 4999, Settle Rejected, Elapse 5002]" "[Elapse 60000]"]
  have a: "invocations (run (variant_part000 utc_host)
      (Mount # [Elapse 4999, Settle Rejected, Elapse 5002]) initial_component)
      = 1 + elapsed [Elapse 4999, Settle Rejected, Elapse 5002] div 5000"
    by (rule c7 [THEN conjunct2, THEN conjunct1, THEN mp]) simp
  have b: "invocations (run (variant_part000 utc_host) (Unmount # [Elapse 60000])
      (run (variant_part000 utc_host) [Mount, Elapse 5000] initial_component))
      = invocations (run (variant_part000 utc_host) [Mount, Elapse 5000] initial_component)"
    by (rule c7 [THEN conjunct2, THEN conjunct2, THEN conjunct1, THEN conjunct2, THEN mp]) simp
  have b': "invocations (run (variant_part000 utc_host) (Mount # [Elapse 5000]) initial_component)
      = 1 + elapsed [Elapse 5000] div 5000"
    by (rule C7_mount_poll_teardown [THEN conjunct2, THEN conjunct1, THEN mp]) simp
  have d: "invocations (run (variant_Dashboard utc_host) (Mount # [Elapse 60000]) initial_component) = 1"
    by (rule c7 [THEN conjunct2, THEN conjunct2, THEN conjunct2, THEN mp, THEN conjunct1]) simp
  from a b b' d show ?thesis
    by simp
qed

text \<open>
  C7 claims the polling for both variants.  Five seconds after mounting, the Dashboard
  variant has not invoked \<^verbatim>\<open>fetchData\<close> a second time.
\<close>

theorem C7_Dashboard_never_polls_counterexample:
  "\<not> (invocations (run (variant_Dashboard utc_host) [Mount, Elapse 5000] initial_component)
        = 1 + elapsed [Elapse 5000] div 5000)"
  by (simp add: run_def variant_Dashboard_def mountEffect_Dashboard_def initial_component_def)

text \<open>
  C9, as the code has it.  Neither variant guards the resumption of \<^verbatim>\<open>fetchData\<close>.
  Teardown leaves a fetch that is in flight pending, and when its response is settled
  after teardown \<^verbatim>\<open>fetchData\<close> issues the same setter calls as on a mounted component,
  \<^verbatim>\<open>setLoading(false)\<close> among them.
\<close>

theorem C9_no_guard_after_teardown:
  "(0 < inflight c \<longrightarrow>
      inflight (step (variant_part000 h) Unmount c) = inflight c
      \<and> issued (run (variant_part000 h) [Unmount, Settle r] c)
          = issued c @ map (Pair False) (fetchData_part000 h r)
      \<and> (False, SetLoading False) \<in> set (issued (run (variant_part000 h) [Unmount, Settle r] c)))
   \<and> (0 < inflight c \<longrightarrow>
      inflight (step (variant_Dashboard h) Unmount c) = inflight c
      \<and> issued (run (variant_Dashboard h) [Unmount, Settle r] c)
          = issued c @ map (Pair False) (fetchData_Dashboard h r)
      \<and> (False, SetLoading False) \<in> set (issued (run (variant_Dashboard h) [Unmount, Settle r] c)))"
proof -
  have p: "SetLoading False \<in> set (fetchData_part000 h r)"
    by (simp add: fetchData_part000_def on_catch_def split: fetch_result.splits sum.splits)
  have d: "SetLoading False \<in> set (fetchData_Dashboard h r)"
    by (simp add: fetchData_Dashboard_def on_catch_def split: fetch_result.splits sum.splits)
  have "issued (run (variant_part000 h) [Unmount, Settle r] c)
      = issued c @ map (Pair False) (fetchData_part000 h r)" if "0 < inflight c"
    using that by (simp add: run_def variant_part000_def mountEffect_part000_def)
  moreover have "issued (run (variant_Dashboard h) [Unmount, Settle r] c)
      = issued c @ map (Pair False) (fetchData_Dashboard h r)" if "0 < inflight c"
    using that by (simp add: run_def variant_Dashboard_def mountEffect_Dashboard_def)
  ultimately show ?thesis
    using p d by (simp add: step_Unmount_part000 step_Unmount_Dashboard del: step.simps)
qed

theorem C9_no_guard_after_teardown_witness:
  "issued (run (variant_part000 utc_host) [Mount, Unmount, Settle Rejected] initial_component)
     = [(False, SetError (Some fetch_error_message)), (False, SetLoading False)]
   \<and> issued (run (variant_Dashboard utc_host) [Mount, Unmount, Settle Rejected] initial_component)
     = [(False, SetError (Some fetch_error_message)), (False, SetLoading False)]"
proof -
  let ?p = "step (variant_part000 utc_host) Mount initial_component"
  let ?d = "step (variant_Dashboard utc_host) Mount initial_component"
  have ip: "0 < inflight ?p" "issued ?p = []"
    by (simp_all add: variant_part000_def mountEffect_part000_def initial_component_def)
  have id: "0 < inflight ?d" "issued ?d = []"
    by (simp_all add: variant_Dashboard_def mountEffect_Dashboard_def initial_component_def)
  have r: "fetchData_part000 utc_host Rejected = on_catch"
    "fetchData_Dashboard utc_host Rejected = on_catch"
    by (simp_all add: fetchData_part000_def fetchData_Dashboard_def)
  have "issued (run (variant_part000 utc_host) [Unmount, Settle Rejected] ?p)
      = issued ?p @ map (Pair False) (fetchData_part000 utc_host Rejected)"
    using C9_no_guard_after_teardown [of ?p utc_host Rejected, THEN conjunct1, THEN mp, OF ip(1)]
    by (rule conjunct2 [THEN conjunct1])
  moreover have "issued (run (variant_Dashboard utc_host) [Unmount, Settle Rejected] ?d)
      = issued ?d @ map (Pair False) (fetchData_Dashboard utc_host Rejected)"
    using C9_no_guard_after_teardown [of ?d utc_host Rejected, THEN conjunct2, THEN mp, OF id(1)]
    by (rule conjunct2 [THEN conjunct1])
  ultimately show ?thesis
    unfolding ip(2) id(2) r by (simp add: run_def on_catch_def)
qed

text \<open>
  C9 claims that no setter call is issued after teardown.  Mount, tear down, then reject
  the fetch started by mounting: in both variants \<^verbatim>\<open>setLoading(false)\<close> is issued on
  the unmounted component.
\<close>

theorem C9_late_response_applied_counterexample:
  "(False, SetLoading False)
     \<in> set (issued (run (variant_part000 utc_host) [Mount, Unmount, Settle Rejected] initial_component))
   \<and> (False, SetLoading False)
     \<in> set (issued (run (variant_Dashboard utc_host) [Mount, Unmount, Settle Rejected] initial_component))"
  by (simp add: run_def variant_part000_def variant_Dashboard_def mountEffect_part000_def
        mountEffect_Dashboard_def initial_component_def fetchData_part000_def
        fetchData_Dashboard_def on_catch_def)

end
